theory Spec2Isabelle
  imports Complex_Main "HOL-Library.Word"
begin

section \<open>Quantum yield of the tomato models (QY - Tomato2022.py)\<close>

text \<open>
  The script loads two metabolic models, configures each of them, solves both with
  parsimonious flux balance analysis, divides two fluxes of each solution and writes
  the two ratios as a table. The model loader, the solver and the table library are
  libraries the script calls: the loader, the solver and the two text renderings of
  the table library are parameters of the embedding (record \<open>env\<close>); the attribute
  assignments and the table operations the script performs are modelled below with
  the behaviour the libraries document for the arguments the script passes.

  Numbers: the fluxes and the ratios are IEEE 754 double precision floats. A float
  is its 64-bit pattern, and negation and division are the operations of the
  standard: division rounds to the nearest float, ties to even, overflows to an
  infinity, underflows to a subnormal float or a zero, keeps the sign of a zero, and
  gives an infinity or a NaN on a zero divisor (a warning, no exception). A NaN that
  an operation produces is the quiet NaN with no payload: which NaN the hardware
  gives is not visible to the script. The bounds the script sets on a reaction are
  kept as the decimal numbers it writes.
\<close>

subsection \<open>Errors\<close>

datatype error =
    LoaderError "string list"
  | InvalidObjective string
  | NoSuchReaction string
  | InvalidBounds
  | SolverError string
  | KeyError string
  | UnequalColumns
  | LengthMismatch nat nat
  | OSError string

subsection \<open>Metabolic models and flux solutions\<close>

record reaction =
  bounds :: "real \<times> real"
  stoichiometry :: "string \<rightharpoonup> real"

record model =
  objective :: string
  objective_direction :: string
  reactions :: "string \<rightharpoonup> reaction"
  metabolites :: "string list"

subsection \<open>Double precision floats\<close>

text \<open>Bit 63 is the sign, bits 52 to 62 the exponent field, bits 0 to 51 the
  fraction field.\<close>

type_synonym float64 = "64 word"

definition sign_bit :: "float64 \<Rightarrow> bool" where
  "sign_bit x = (2 ^ 63 \<le> unat x)"

definition exponent :: "float64 \<Rightarrow> nat" where
  "exponent x = (unat x div 2 ^ 52) mod 2048"

definition fraction :: "float64 \<Rightarrow> nat" where
  "fraction x = unat x mod 2 ^ 52"

definition is_nan :: "float64 \<Rightarrow> bool" where
  "is_nan x = (exponent x = 2047 \<and> fraction x \<noteq> 0)"

definition is_inf :: "float64 \<Rightarrow> bool" where
  "is_inf x = (exponent x = 2047 \<and> fraction x = 0)"

definition is_zero :: "float64 \<Rightarrow> bool" where
  "is_zero x = (exponent x = 0 \<and> fraction x = 0)"

text \<open>A finite float has the magnitude \<open>mantissa * 2 ^ exp2\<close>: the exponent field 0
  holds the zeros and the subnormal floats, which have no implicit leading bit.\<close>

definition mantissa :: "float64 \<Rightarrow> nat" where
  "mantissa x = (if exponent x = 0 then fraction x else 2 ^ 52 + fraction x)"

definition exp2 :: "float64 \<Rightarrow> int" where
  "exp2 x = (if exponent x = 0 then - 1074 else int (exponent x) - 1075)"

text \<open>The real number a finite float stands for.\<close>

definition valof :: "float64 \<Rightarrow> real" where
  "valof x =
     (if sign_bit x then - 1 else 1) * real (mantissa x) *
     (if 0 \<le> exp2 x then 2 ^ nat (exp2 x) else 1 / 2 ^ nat (- exp2 x))"

text \<open>The float of a sign and of the 63 bits below it.\<close>

definition pack :: "bool \<Rightarrow> nat \<Rightarrow> float64" where
  "pack s mag = of_nat ((if s then 2 ^ 63 else 0) + mag)"

definition inf_bits :: nat where
  "inf_bits = 2047 * 2 ^ 52"

definition nan :: float64 where
  "nan = pack False (inf_bits + 2 ^ 51)"

fun bit_length :: "nat \<Rightarrow> nat" where
  "bit_length n = (if n = 0 then 0 else Suc (bit_length (n div 2)))"

text \<open>The integer part of the binary logarithm of \<open>p / q\<close>, for positive \<open>p\<close> and
  \<open>q\<close>.\<close>

definition floor_log2 :: "nat \<Rightarrow> nat \<Rightarrow> int" where
  "floor_log2 p q =
     (let d = int (bit_length p) - int (bit_length q)
      in if q * 2 ^ nat d \<le> p * 2 ^ nat (- d) then d else d - 1)"

text \<open>The integer nearest to \<open>p / q\<close>, the even one of two that are equally near.\<close>

definition round_half_even :: "nat \<Rightarrow> nat \<Rightarrow> nat" where
  "round_half_even p q =
     (let n = p div q; r = p mod q
      in if 2 * r < q then n else if q < 2 * r then n + 1
         else if even n then n else n + 1)"

text \<open>The 63 bits of the float nearest to \<open>(p / q) * 2 ^ g\<close>, for positive \<open>p\<close> and
  \<open>q\<close>. The floats around the number are \<open>2 ^ u\<close> apart, and never less than
  \<open>2 ^ - 1074\<close>; the number is rounded to a multiple \<open>n\<close> of that unit, and the bits
  of the result are \<open>n\<close> above the first float of the unit's exponent field. A
  result beyond the largest finite float is the infinity.\<close>

definition round_magnitude :: "nat \<Rightarrow> nat \<Rightarrow> int \<Rightarrow> nat" where
  "round_magnitude p q g =
     (let u = max (floor_log2 p q + g - 52) (- 1074);
          k = g - u;
          n = (if 0 \<le> k then round_half_even (p * 2 ^ nat k) q
               else round_half_even p (q * 2 ^ nat (- k)))
      in min (nat (u + 1074) * 2 ^ 52 + n) inf_bits)"

text \<open>The float nearest to the fraction \<open>p / q\<close> (\<open>q\<close> positive): the float a
  decimal literal or an integer stands for.\<close>

definition float_of_ratio :: "int \<Rightarrow> nat \<Rightarrow> float64" where
  "float_of_ratio p q =
     (if p = 0 then pack False 0 else pack (p < 0) (round_magnitude (nat \<bar>p\<bar>) q 0))"

definition float_of_int :: "int \<Rightarrow> float64" where
  "float_of_int p = float_of_ratio p 1"

text \<open>Unary minus: the sign bit is flipped, of a zero and of a NaN too.\<close>

definition negative :: "float64 \<Rightarrow> float64" where
  "negative x = pack (\<not> sign_bit x) (unat x mod 2 ^ 63)"

text \<open>Division. The sign of the result is the exclusive or of the operands' signs.\<close>

definition true_divide :: "float64 \<Rightarrow> float64 \<Rightarrow> float64" where
  "true_divide a b =
     (if is_nan a \<or> is_nan b then nan
      else if is_inf a then
        (if is_inf b then nan else pack (sign_bit a \<noteq> sign_bit b) inf_bits)
      else if is_inf b then pack (sign_bit a \<noteq> sign_bit b) 0
      else if is_zero b then
        (if is_zero a then nan else pack (sign_bit a \<noteq> sign_bit b) inf_bits)
      else if is_zero a then pack (sign_bit a \<noteq> sign_bit b) 0
      else pack (sign_bit a \<noteq> sign_bit b)
             (round_magnitude (mantissa a) (mantissa b) (exp2 a - exp2 b)))"

subsection \<open>Flux solutions and tables\<close>

type_synonym fluxes = "string \<rightharpoonup> float64"

record solution =
  objective_value :: float64
  fluxes :: fluxes

datatype index = RangeIndex nat | Labels "string list"

record dataframe =
  columns :: "(string \<times> float64 list) list"
  index :: index

subsection \<open>The world outside the process\<close>

record world =
  solver_calls :: "model list"
  files :: "string \<rightharpoonup> string"
  stdout :: string

datatype newline = Posix | Windows

text \<open>What the script takes from outside: the model loader, the solver, the decimal
  text the table library writes for a finite float in a CSV field, the text it
  prints for a table, which files can be written, and the platform's line
  separator.\<close>

record env =
  read_sbml_model :: "string list \<Rightarrow> error + model"
  pfba :: "model \<Rightarrow> error + solution"
  float_str :: "float64 \<Rightarrow> string"
  frame_str :: "dataframe \<Rightarrow> string"
  writable :: "string \<Rightarrow> bool"
  linesep :: newline

subsection \<open>Model configuration (lines 19-24)\<close>

text \<open>\<open>model.objective = rid\<close>: the named reaction becomes the objective; a name
  that is no reaction of the model is refused.\<close>

definition set_objective :: "model \<Rightarrow> string \<Rightarrow> error + model" where
  "set_objective m rid =
     (if rid \<in> dom (reactions m) then Inr (m\<lparr>objective := rid\<rparr>)
      else Inl (InvalidObjective rid))"

text \<open>\<open>model.objective_direction = d\<close>.\<close>

definition set_objective_direction :: "model \<Rightarrow> string \<Rightarrow> model" where
  "set_objective_direction m d = m\<lparr>objective_direction := d\<rparr>"

text \<open>\<open>model.reactions.<rid>.bounds = (lb, ub)\<close>: the attribute lookup fails when the
  model has no such reaction, and the bounds are refused when the lower one exceeds
  the upper one.\<close>

definition set_bounds :: "model \<Rightarrow> string \<Rightarrow> real \<times> real \<Rightarrow> error + model" where
  "set_bounds m rid b =
     (case reactions m rid of
        None \<Rightarrow> Inl (NoSuchReaction rid)
      | Some r \<Rightarrow>
          if fst b > snd b then Inl InvalidBounds
          else Inr (m\<lparr>reactions := (reactions m)(rid \<mapsto> r\<lparr>bounds := b\<rparr>)\<rparr>))"

text \<open>The three assignments the script makes on one model, in the script's order.\<close>

definition configure ::
  "model \<Rightarrow> string \<Rightarrow> string \<Rightarrow> string \<Rightarrow> real \<times> real \<Rightarrow> error + model" where
  "configure m obj dir rid b =
     (case set_objective m obj of
        Inl e \<Rightarrow> Inl e
      | Inr m1 \<Rightarrow> set_bounds (set_objective_direction m1 dir) rid b)"

definition configure_original :: "model \<Rightarrow> error + model" where
  "configure_original original_model =
     configure original_model ''EX_photon_h'' ''max'' ''BIOMASS_STEM'' (11 / 100, 11 / 100)"

definition configure_diel :: "model \<Rightarrow> error + model" where
  "configure_diel diel_tomato_model =
     configure diel_tomato_model ''EX_photon_h_Day'' ''max'' ''Biomass_Total''
       (11 / 100, 11 / 100)"

subsection \<open>The solve function \<open>QY\<close> (lines 8-12)\<close>

text \<open>One call of the solver: the call is recorded in the world, and its result is
  the solver's.\<close>

definition call_pfba ::
  "(model \<Rightarrow> error + solution) \<Rightarrow> model \<Rightarrow> world \<Rightarrow> (error + solution) \<times> world" where
  "call_pfba solve m w = (solve m, w\<lparr>solver_calls := solver_calls w @ [m]\<rparr>)"

definition QY ::
  "(model \<Rightarrow> error + solution) \<Rightarrow> model \<Rightarrow> model \<Rightarrow> world
     \<Rightarrow> (error + fluxes \<times> fluxes) \<times> world" where
  "QY solve non_diel_model diel_model w =
     (case call_pfba solve non_diel_model w of
        (Inl e, w1) \<Rightarrow> (Inl e, w1)
      | (Inr s_nd, w1) \<Rightarrow>
          (let fba_sol_nd = fluxes s_nd in
           case call_pfba solve diel_model w1 of
             (Inl e, w2) \<Rightarrow> (Inl e, w2)
           | (Inr s_d, w2) \<Rightarrow>
               (let fba_sol_d = fluxes s_d in (Inr (fba_sol_nd, fba_sol_d), w2))))"

subsection \<open>Ratios (lines 28-30)\<close>

text \<open>\<open>series[key]\<close>: a label the series does not have raises \<open>KeyError\<close>.\<close>

definition getitem :: "fluxes \<Rightarrow> string \<Rightarrow> error + float64" where
  "getitem s k = (case s k of None \<Rightarrow> Inl (KeyError k) | Some v \<Rightarrow> Inr v)"

text \<open>\<open>s[num] / - s[den]\<close>: the left operand is looked up first, then the right one,
  which is negated, then the division is made.\<close>

definition ratio :: "fluxes \<Rightarrow> string \<Rightarrow> string \<Rightarrow> error + float64" where
  "ratio s num den =
     (case getitem s num of
        Inl e \<Rightarrow> Inl e
      | Inr a \<Rightarrow>
          (case getitem s den of
             Inl e \<Rightarrow> Inl e
           | Inr b \<Rightarrow> Inr (true_divide a (negative b))))"

text \<open>The dictionary with the one key \<open>Quantum Yield\<close>; the list's elements are
  evaluated from left to right.\<close>

definition data_quantum_assimilation ::
  "fluxes \<Rightarrow> fluxes \<Rightarrow> error + (string \<times> float64 list) list" where
  "data_quantum_assimilation fba_sol_non_diel fba_sol_diel_model =
     (case ratio fba_sol_non_diel ''RBPCh'' ''EX_photon_h'' of
        Inl e \<Rightarrow> Inl e
      | Inr q_nd \<Rightarrow>
          (case ratio fba_sol_diel_model ''RBPCh_Day'' ''EX_photon_h_Day'' of
             Inl e \<Rightarrow> Inl e
           | Inr q_d \<Rightarrow> Inr [(''Quantum Yield'', [q_nd, q_d])]))"

subsection \<open>The table (lines 32-34)\<close>

definition nrows :: "dataframe \<Rightarrow> nat" where
  "nrows df = (case index df of RangeIndex n \<Rightarrow> n | Labels ls \<Rightarrow> length ls)"

text \<open>\<open>pd.DataFrame(dict)\<close>: one column per key, in the dictionary's order, all of
  one length, and the default index \<open>0 .. n-1\<close>.\<close>

definition DataFrame :: "(string \<times> float64 list) list \<Rightarrow> error + dataframe" where
  "DataFrame d =
     (case d of
        [] \<Rightarrow> Inr \<lparr>columns = [], index = RangeIndex 0\<rparr>
      | (c, vs) # rest \<Rightarrow>
          if list_all (\<lambda>col. length (snd col) = length vs) rest
          then Inr \<lparr>columns = d, index = RangeIndex (length vs)\<rparr>
          else Inl UnequalColumns)"

text \<open>\<open>df.index = labels\<close>: as many labels as the table has rows.\<close>

definition set_index :: "dataframe \<Rightarrow> string list \<Rightarrow> error + dataframe" where
  "set_index df labels =
     (if length labels = nrows df then Inr (df\<lparr>index := Labels labels\<rparr>)
      else Inl (LengthMismatch (nrows df) (length labels)))"

definition tabel :: "fluxes \<Rightarrow> fluxes \<Rightarrow> error + dataframe" where
  "tabel fba_sol_non_diel fba_sol_diel_model =
     (case data_quantum_assimilation fba_sol_non_diel fba_sol_diel_model of
        Inl e \<Rightarrow> Inl e
      | Inr d \<Rightarrow>
          (case DataFrame d of
             Inl e \<Rightarrow> Inl e
           | Inr t \<Rightarrow> set_index t [''Original Model'', ''Created Diel Model'']))"

subsection \<open>Writing and printing the table (lines 36-38)\<close>

definition os_linesep :: "newline \<Rightarrow> string" where
  "os_linesep nl = (case nl of Posix \<Rightarrow> [CHR 0x0A] | Windows \<Rightarrow> [CHR 0x0D, CHR 0x0A])"

definition digit :: "nat \<Rightarrow> char" where
  "digit n = char_of (48 + n)"

fun show_nat :: "nat \<Rightarrow> string" where
  "show_nat n = (if n < 10 then [digit n] else show_nat (n div 10) @ [digit (n mod 10)])"

definition index_labels :: "index \<Rightarrow> string list" where
  "index_labels ix = (case ix of RangeIndex n \<Rightarrow> map show_nat [0..<n] | Labels ls \<Rightarrow> ls)"

text \<open>Minimal quoting: a field is quoted when it holds the separator, the quote
  character or a character of the line terminator; quote characters are doubled.\<close>

definition csv_field :: "char \<Rightarrow> string \<Rightarrow> string \<Rightarrow> string" where
  "csv_field sep eol s =
     (if list_ex (\<lambda>c. c = sep \<or> c = CHR 0x22 \<or> c \<in> set eol) s
      then [CHR 0x22] @ concat (map (\<lambda>c. if c = CHR 0x22 then [c, c] else [c]) s) @ [CHR 0x22]
      else s)"

fun join :: "string \<Rightarrow> string list \<Rightarrow> string" where
  "join sep [] = []"
| "join sep [x] = x"
| "join sep (x # y # ys) = x @ sep @ join sep (y # ys)"

text \<open>A row of one empty field is written as a pair of quotes.\<close>

definition csv_line :: "char \<Rightarrow> string \<Rightarrow> string list \<Rightarrow> string" where
  "csv_line sep eol fs =
     (if fs = [[]] then [CHR 0x22, CHR 0x22] else join [sep] (map (csv_field sep eol) fs)) @ eol"

text \<open>The field of a float: nothing for a NaN (the default for a missing value),
  \<open>inf\<close> or \<open>-inf\<close> for an infinity, and the decimal text \<open>fmt\<close> gives for a finite
  float.\<close>

definition value_text :: "(float64 \<Rightarrow> string) \<Rightarrow> float64 \<Rightarrow> string" where
  "value_text fmt v =
     (if is_nan v then []
      else if is_inf v then (if sign_bit v then ''-inf'' else ''inf'')
      else fmt v)"

text \<open>The text of \<open>df.to_csv(path, sep=sep)\<close>: a header row with an empty name for
  the index column and the column names, then one row per index label with the
  row's value of every column.\<close>

definition csv_rows :: "(float64 \<Rightarrow> string) \<Rightarrow> dataframe \<Rightarrow> string list list" where
  "csv_rows fmt df =
     ([] # map fst (columns df)) #
     map (\<lambda>(i, l). l # map (\<lambda>col. value_text fmt (snd col ! i)) (columns df))
       (enumerate 0 (index_labels (index df)))"

definition csv_text :: "(float64 \<Rightarrow> string) \<Rightarrow> string \<Rightarrow> char \<Rightarrow> dataframe \<Rightarrow> string" where
  "csv_text fmt eol sep df = concat (map (csv_line sep eol) (csv_rows fmt df))"

definition to_csv :: "env \<Rightarrow> dataframe \<Rightarrow> string \<Rightarrow> char \<Rightarrow> world \<Rightarrow> (error + unit) \<times> world" where
  "to_csv env df path sep w =
     (if writable env path
      then (Inr (),
            w\<lparr>files := (files w)(path \<mapsto>
                 csv_text (float_str env) (os_linesep (linesep env)) sep df)\<rparr>)
      else (Inl (OSError path), w))"

text \<open>\<open>print(df)\<close>: the table's text and a line feed on standard output.\<close>

definition print_frame :: "env \<Rightarrow> dataframe \<Rightarrow> world \<Rightarrow> world" where
  "print_frame env df w = w\<lparr>stdout := stdout w @ frame_str env df @ [CHR 0x0A]\<rparr>"

definition export :: "env \<Rightarrow> dataframe \<Rightarrow> world \<Rightarrow> (error + unit) \<times> world" where
  "export env t w =
     (case to_csv env t ''QY_Tomato22.csv'' (CHR '','') w of
        (Inl e, w1) \<Rightarrow> (Inl e, w1)
      | (Inr u, w1) \<Rightarrow> (Inr (), print_frame env t w1))"

subsection \<open>The script (lines 15-38)\<close>

definition original_path :: "string list" where
  "original_path = [''..'', ''..'', ''..'', ''examples'', ''models'', ''tomato_Sl2183.xml'']"

definition diel_path :: "string list" where
  "diel_path =
     [''..'', ''..'', ''..'', ''examples'', ''models'', ''diel_tomato2022_model_wo_nitrate.xml'']"

definition load_models :: "env \<Rightarrow> error + model \<times> model" where
  "load_models env =
     (case read_sbml_model env original_path of
        Inl e \<Rightarrow> Inl e
      | Inr original_model \<Rightarrow>
          (case read_sbml_model env diel_path of
             Inl e \<Rightarrow> Inl e
           | Inr diel_tomato_model \<Rightarrow> Inr (original_model, diel_tomato_model)))"

definition configure_models :: "model \<Rightarrow> model \<Rightarrow> error + model \<times> model" where
  "configure_models original_model diel_tomato_model =
     (case configure_original original_model of
        Inl e \<Rightarrow> Inl e
      | Inr om \<Rightarrow>
          (case configure_diel diel_tomato_model of
             Inl e \<Rightarrow> Inl e
           | Inr dm \<Rightarrow> Inr (om, dm)))"

definition main :: "env \<Rightarrow> world \<Rightarrow> (error + unit) \<times> world" where
  "main env w =
     (case load_models env of
        Inl e \<Rightarrow> (Inl e, w)
      | Inr (original_model, diel_tomato_model) \<Rightarrow>
          (case configure_models original_model diel_tomato_model of
             Inl e \<Rightarrow> (Inl e, w)
           | Inr (om, dm) \<Rightarrow>
               (case QY (pfba env) om dm w of
                  (Inl e, w1) \<Rightarrow> (Inl e, w1)
                | (Inr (fba_sol_non_diel, fba_sol_diel_model), w1) \<Rightarrow>
                    (case tabel fba_sol_non_diel fba_sol_diel_model of
                       Inl e \<Rightarrow> (Inl e, w1)
                     | Inr t \<Rightarrow> export env t w1))))"

subsection \<open>A small instance\<close>

text \<open>Two models of three reactions each, a solver that answers with fixed fluxes,
  and an empty world: the instance on which the properties below are run.\<close>

definition toy_reaction :: reaction where
  "toy_reaction = \<lparr>bounds = (0, 1000), stoichiometry = Map.empty\<rparr>"

definition toy_original :: model where
  "toy_original =
     \<lparr>objective = ''BIOMASS_STEM'', objective_direction = ''max'',
      reactions = [''EX_photon_h'' \<mapsto> toy_reaction\<lparr>bounds := (- 1000, 0)\<rparr>,
                   ''RBPCh'' \<mapsto> toy_reaction, ''BIOMASS_STEM'' \<mapsto> toy_reaction],
      metabolites = [''CO2'', ''photon'']\<rparr>"

definition toy_diel :: model where
  "toy_diel =
     \<lparr>objective = ''Biomass_Total'', objective_direction = ''min'',
      reactions = [''EX_photon_h_Day'' \<mapsto> toy_reaction\<lparr>bounds := (- 1000, 0)\<rparr>,
                   ''RBPCh_Day'' \<mapsto> toy_reaction, ''Biomass_Total'' \<mapsto> toy_reaction],
      metabolites = [''CO2_Day'', ''photon_Day'']\<rparr>"

definition toy_fluxes_nd :: fluxes where
  "toy_fluxes_nd =
     [''RBPCh'' \<mapsto> float_of_int 10, ''EX_photon_h'' \<mapsto> float_of_int (- 20)]"

definition toy_fluxes_d :: fluxes where
  "toy_fluxes_d =
     [''RBPCh_Day'' \<mapsto> float_of_int 5, ''EX_photon_h_Day'' \<mapsto> float_of_int (- 10)]"

definition toy_solve :: "model \<Rightarrow> error + solution" where
  "toy_solve m =
     (if objective m = ''EX_photon_h''
      then Inr \<lparr>objective_value = float_of_int (- 20), fluxes = toy_fluxes_nd\<rparr>
      else if objective m = ''EX_photon_h_Day''
      then Inr \<lparr>objective_value = float_of_int (- 10), fluxes = toy_fluxes_d\<rparr>
      else Inl (SolverError ''infeasible''))"

definition toy_float_str :: "float64 \<Rightarrow> string" where
  "toy_float_str v =
     (if v = float_of_ratio 1 2 then ''0.5''
      else if v = float_of_ratio 7 10 then ''0.7'' else ''0.15'')"

definition toy_env :: env where
  "toy_env =
     \<lparr>read_sbml_model =
        (\<lambda>p. if p = original_path then Inr toy_original
             else if p = diel_path then Inr toy_diel else Inl (LoaderError p)),
      pfba = toy_solve,
      float_str = toy_float_str,
      frame_str = (\<lambda>df. concat (map fst (columns df))),
      writable = (\<lambda>p. True),
      linesep = Posix\<rparr>"

definition toy_world :: world where
  "toy_world = \<lparr>solver_calls = [], files = Map.empty, stdout = []\<rparr>"

text \<open>What the run of the instance is expected to produce.\<close>

definition toy_original_configured :: model where
  "toy_original_configured =
     toy_original\<lparr>objective := ''EX_photon_h'', objective_direction := ''max'',
       reactions := (reactions toy_original)
         (''BIOMASS_STEM'' \<mapsto> toy_reaction\<lparr>bounds := (11 / 100, 11 / 100)\<rparr>)\<rparr>"

definition toy_diel_configured :: model where
  "toy_diel_configured =
     toy_diel\<lparr>objective := ''EX_photon_h_Day'', objective_direction := ''max'',
       reactions := (reactions toy_diel)
         (''Biomass_Total'' \<mapsto> toy_reaction\<lparr>bounds := (11 / 100, 11 / 100)\<rparr>)\<rparr>"

definition toy_tabel :: dataframe where
  "toy_tabel =
     \<lparr>columns = [(''Quantum Yield'', [float_of_ratio 1 2, float_of_ratio 1 2])],
      index = Labels [''Original Model'', ''Created Diel Model'']\<rparr>"

definition toy_csv :: string where
  "toy_csv =
     '',Quantum Yield'' @ [CHR 0x0A] @ ''Original Model,0.5'' @ [CHR 0x0A] @
     ''Created Diel Model,0.5'' @ [CHR 0x0A]"

definition toy_final_world :: world where
  "toy_final_world =
     \<lparr>solver_calls = [toy_original_configured, toy_diel_configured],
      files = [''QY_Tomato22.csv'' \<mapsto> toy_csv],
      stdout = ''Quantum Yield'' @ [CHR 0x0A]\<rparr>"

text \<open>The same instance with a solver whose non-diel solution has no flux for
  \<open>EX_photon_h\<close>, and one whose non-diel solve fails.\<close>

definition toy_fluxes_no_photon :: fluxes where
  "toy_fluxes_no_photon = [''RBPCh'' \<mapsto> float_of_int 10]"

definition toy_solve_no_photon :: "model \<Rightarrow> error + solution" where
  "toy_solve_no_photon m =
     (if objective m = ''EX_photon_h''
      then Inr \<lparr>objective_value = float_of_int 0, fluxes = toy_fluxes_no_photon\<rparr>
      else toy_solve m)"

definition toy_solve_infeasible :: "model \<Rightarrow> error + solution" where
  "toy_solve_infeasible m =
     (if objective m = ''EX_photon_h'' then Inl (SolverError ''infeasible'') else toy_solve m)"

text \<open>Two more solutions: one that differs from the instance's in the diel fluxes
  only, and one that differs in the non-diel fluxes only.\<close>

definition toy_fluxes_d2 :: fluxes where
  "toy_fluxes_d2 =
     [''RBPCh_Day'' \<mapsto> float_of_int 7, ''EX_photon_h_Day'' \<mapsto> float_of_int (- 10)]"

definition toy_fluxes_nd2 :: fluxes where
  "toy_fluxes_nd2 =
     [''RBPCh'' \<mapsto> float_of_int 3, ''EX_photon_h'' \<mapsto> float_of_int (- 20)]"

definition toy_tabel2 :: dataframe where
  "toy_tabel2 =
     \<lparr>columns = [(''Quantum Yield'', [float_of_ratio 1 2, float_of_ratio 7 10])],
      index = Labels [''Original Model'', ''Created Diel Model'']\<rparr>"

definition toy_tabel3 :: dataframe where
  "toy_tabel3 =
     \<lparr>columns = [(''Quantum Yield'', [float_of_ratio 3 20, float_of_ratio 1 2])],
      index = Labels [''Original Model'', ''Created Diel Model'']\<rparr>"

text \<open>The same instance with a solver whose non-diel solution has the flux 0.0 for
  both reactions, and what its run is expected to produce.\<close>

definition toy_fluxes_zero :: fluxes where
  "toy_fluxes_zero =
     [''RBPCh'' \<mapsto> float_of_int 0, ''EX_photon_h'' \<mapsto> float_of_int 0]"

definition toy_solve_zero :: "model \<Rightarrow> error + solution" where
  "toy_solve_zero m =
     (if objective m = ''EX_photon_h''
      then Inr \<lparr>objective_value = float_of_int 0, fluxes = toy_fluxes_zero\<rparr>
      else toy_solve m)"

definition toy_tabel_zero :: dataframe where
  "toy_tabel_zero =
     \<lparr>columns = [(''Quantum Yield'', [nan, float_of_ratio 1 2])],
      index = Labels [''Original Model'', ''Created Diel Model'']\<rparr>"

definition toy_csv_zero :: string where
  "toy_csv_zero =
     '',Quantum Yield'' @ [CHR 0x0A] @ ''Original Model,'' @ [CHR 0x0A] @
     ''Created Diel Model,0.5'' @ [CHR 0x0A]"

definition toy_final_world_zero :: world where
  "toy_final_world_zero =
     \<lparr>solver_calls = [toy_original_configured, toy_diel_configured],
      files = [''QY_Tomato22.csv'' \<mapsto> toy_csv_zero],
      stdout = ''Quantum Yield'' @ [CHR 0x0A]\<rparr>"

section \<open>Facts about the operations\<close>

lemmas float_defs =
  true_divide_def negative_def float_of_int_def float_of_ratio_def round_magnitude_def
  floor_log2_def round_half_even_def pack_def inf_bits_def nan_def sign_bit_def exponent_def
  fraction_def is_nan_def is_inf_def is_zero_def mantissa_def exp2_def

text \<open>Division at work: 1.0 / 3.0 is rounded, \<open>2 ^ 1000 / 2 ^ - 100\<close> overflows to the
  infinity, \<open>2 ^ - 1000 / 2 ^ 100\<close> underflows to zero, \<open>2 ^ - 1000 / 2 ^ 70\<close> is the
  subnormal float \<open>2 ^ - 1070\<close>, 10.0 / -0.0 is the negative infinity, 0.0 / -0.0
  and the quotient of two infinities are NaN.\<close>

lemma true_divide_examples:
  "true_divide 0x3FF0000000000000 0x4008000000000000 = 0x3FD5555555555555"
  "true_divide 0x7E70000000000000 0x39B0000000000000 = 0x7FF0000000000000"
  "true_divide 0x0170000000000000 0x4630000000000000 = 0"
  "true_divide 0x0170000000000000 0x4450000000000000 = 0x10"
  "true_divide 0x4024000000000000 0x8000000000000000 = 0xFFF0000000000000"
  "true_divide 0 0x8000000000000000 = 0x7FF8000000000000"
  "true_divide 0x7FF0000000000000 0xFFF0000000000000 = 0x7FF8000000000000"
  by (simp_all add: float_defs)

lemma configure_Inr:
  "configure m obj dir rid b = Inr m' \<Longrightarrow>
     \<exists>r. obj \<in> dom (reactions m) \<and> reactions m rid = Some r \<and> fst b \<le> snd b \<and>
       m' = m\<lparr>objective := obj, objective_direction := dir,
              reactions := (reactions m)(rid \<mapsto> r\<lparr>bounds := b\<rparr>)\<rparr>"
  by (auto simp: configure_def set_objective_def set_objective_direction_def set_bounds_def
      split: if_splits option.splits)

lemma QY_cases:
  "QY solve nd d w =
     (case solve nd of
        Inl e \<Rightarrow> (Inl e, w\<lparr>solver_calls := solver_calls w @ [nd]\<rparr>)
      | Inr s1 \<Rightarrow>
          (case solve d of
             Inl e \<Rightarrow> (Inl e, w\<lparr>solver_calls := solver_calls w @ [nd, d]\<rparr>)
           | Inr s2 \<Rightarrow> (Inr (fluxes s1, fluxes s2), w\<lparr>solver_calls := solver_calls w @ [nd, d]\<rparr>)))"
  by (simp add: QY_def call_pfba_def split: sum.splits)

lemma data_quantum_assimilation_Inr:
  "data_quantum_assimilation nd d = Inr x \<Longrightarrow>
     \<exists>a b a' b'. nd ''RBPCh'' = Some a \<and> nd ''EX_photon_h'' = Some b \<and>
        d ''RBPCh_Day'' = Some a' \<and> d ''EX_photon_h_Day'' = Some b' \<and>
        x = [(''Quantum Yield'', [true_divide a (negative b), true_divide a' (negative b')])]"
  by (auto simp: data_quantum_assimilation_def ratio_def getitem_def
      split: sum.splits option.splits)

lemma DataFrame_single:
  "DataFrame [(c, vs)] = Inr \<lparr>columns = [(c, vs)], index = RangeIndex (length vs)\<rparr>"
  by (simp add: DataFrame_def)

lemma tabel_of_data:
  "data_quantum_assimilation nd d = Inr [(c, [v1, v2])] \<Longrightarrow>
     tabel nd d = Inr \<lparr>columns = [(c, [v1, v2])],
                       index = Labels [''Original Model'', ''Created Diel Model'']\<rparr>"
  by (simp add: tabel_def DataFrame_single set_index_def nrows_def)

lemma tabel_Inr:
  assumes "tabel nd d = Inr t"
  shows "\<exists>a b a' b'. nd ''RBPCh'' = Some a \<and> nd ''EX_photon_h'' = Some b \<and>
        d ''RBPCh_Day'' = Some a' \<and> d ''EX_photon_h_Day'' = Some b' \<and>
        t = \<lparr>columns = [(''Quantum Yield'', [true_divide a (negative b), true_divide a' (negative b')])],
             index = Labels [''Original Model'', ''Created Diel Model'']\<rparr>"
proof -
  from assms obtain x where x: "data_quantum_assimilation nd d = Inr x"
    by (auto simp: tabel_def split: sum.splits)
  from data_quantum_assimilation_Inr [OF x] obtain a b a' b' where
    k: "nd ''RBPCh'' = Some a" "nd ''EX_photon_h'' = Some b"
       "d ''RBPCh_Day'' = Some a'" "d ''EX_photon_h_Day'' = Some b'"
    and xe: "x = [(''Quantum Yield'', [true_divide a (negative b), true_divide a' (negative b')])]"
    by blast
  from x xe assms tabel_of_data [of nd d "''Quantum Yield''"] have
    "t = \<lparr>columns = [(''Quantum Yield'', [true_divide a (negative b), true_divide a' (negative b')])],
          index = Labels [''Original Model'', ''Created Diel Model'']\<rparr>"
    by simp
  with k show ?thesis by blast
qed

lemma data_quantum_assimilation_Inl:
  "data_quantum_assimilation nd d = Inl e \<Longrightarrow>
     e = KeyError ''RBPCh'' \<and> nd ''RBPCh'' = None
   \<or> e = KeyError ''EX_photon_h'' \<and> nd ''EX_photon_h'' = None
   \<or> e = KeyError ''RBPCh_Day'' \<and> d ''RBPCh_Day'' = None
   \<or> e = KeyError ''EX_photon_h_Day'' \<and> d ''EX_photon_h_Day'' = None"
  by (auto simp: data_quantum_assimilation_def ratio_def getitem_def
      split: sum.splits option.splits)

lemma missing_key_fails:
  "nd ''RBPCh'' = None \<or> nd ''EX_photon_h'' = None \<or>
   d ''RBPCh_Day'' = None \<or> d ''EX_photon_h_Day'' = None \<Longrightarrow>
   \<exists>e. data_quantum_assimilation nd d = Inl e"
  by (auto simp: data_quantum_assimilation_def ratio_def getitem_def
      split: sum.splits option.splits)

lemma csv_text_tabel:
  "csv_text fmt (os_linesep nl) (CHR '','')
     \<lparr>columns = [(''Quantum Yield'', [v1, v2])],
      index = Labels [''Original Model'', ''Created Diel Model'']\<rparr> =
   '',Quantum Yield'' @ os_linesep nl @
   ''Original Model,'' @ csv_field (CHR '','') (os_linesep nl) (value_text fmt v1) @
   os_linesep nl @
   ''Created Diel Model,'' @ csv_field (CHR '','') (os_linesep nl) (value_text fmt v2) @
   os_linesep nl"
  by (cases nl)
    (simp_all add: csv_text_def csv_rows_def csv_line_def csv_field_def index_labels_def
      os_linesep_def enumerate_eq_zip upt_rec)

lemma main_success:
  assumes "main env w = (Inr u, w')"
  shows "\<exists>om dm om' dm' s1 s2 t.
           load_models env = Inr (om, dm) \<and> configure_models om dm = Inr (om', dm') \<and>
           pfba env om' = Inr s1 \<and> pfba env dm' = Inr s2 \<and>
           tabel (fluxes s1) (fluxes s2) = Inr t \<and>
           writable env ''QY_Tomato22.csv'' \<and>
           w' = w\<lparr>solver_calls := solver_calls w @ [om', dm'],
                  files := (files w)(''QY_Tomato22.csv'' \<mapsto>
                     csv_text (float_str env) (os_linesep (linesep env)) (CHR '','') t),
                  stdout := stdout w @ frame_str env t @ [CHR 0x0A]\<rparr>"
  using assms
  by (auto simp: main_def QY_cases export_def to_csv_def print_frame_def
      split: sum.splits prod.splits if_splits)

lemma main_success_output:
  assumes "main env w = (Inr u, w')"
  shows "\<exists>(s1::solution) (s2::solution) t. tabel (fluxes s1) (fluxes s2) = Inr t \<and>
           files w' ''QY_Tomato22.csv'' =
             Some (csv_text (float_str env) (os_linesep (linesep env)) (CHR '','') t) \<and>
           (\<forall>p. p \<noteq> ''QY_Tomato22.csv'' \<longrightarrow> files w' p = files w p) \<and>
           stdout w' = stdout w @ frame_str env t @ [CHR 0x0A]"
proof -
  from main_success [OF assms] obtain om' dm' and s1 s2 :: solution and t where
    t: "tabel (fluxes s1) (fluxes s2) = Inr t"
    and w': "w' = w\<lparr>solver_calls := solver_calls w @ [om', dm'],
                  files := (files w)(''QY_Tomato22.csv'' \<mapsto>
                     csv_text (float_str env) (os_linesep (linesep env)) (CHR '','') t),
                  stdout := stdout w @ frame_str env t @ [CHR 0x0A]\<rparr>"
    by blast
  from w' have
    "files w' ''QY_Tomato22.csv'' =
       Some (csv_text (float_str env) (os_linesep (linesep env)) (CHR '','') t)"
    "\<forall>p. p \<noteq> ''QY_Tomato22.csv'' \<longrightarrow> files w' p = files w p"
    "stdout w' = stdout w @ frame_str env t @ [CHR 0x0A]"
    by simp_all
  with t show ?thesis by blast
qed

lemma main_solver_calls:
  assumes "main env w = (r, w')"
  shows "solver_calls w' = solver_calls w \<or>
         (\<exists>om dm om' dm'. load_models env = Inr (om, dm) \<and>
            configure_models om dm = Inr (om', dm') \<and>
            (solver_calls w' = solver_calls w @ [om'] \<or>
             solver_calls w' = solver_calls w @ [om', dm']))"
  using assms
  by (auto simp: main_def QY_cases export_def to_csv_def print_frame_def
      split: sum.splits prod.splits if_splits)

lemma configure_models_Inr:
  "configure_models om dm = Inr (om', dm') \<Longrightarrow>
     configure_original om = Inr om' \<and> configure_diel dm = Inr dm'"
  by (auto simp: configure_models_def split: sum.splits)

lemma main_missing_key:
  assumes "load_models env = Inr (om, dm)" and "configure_models om dm = Inr (om', dm')"
    and "pfba env om' = Inr s1" and "pfba env dm' = Inr s2"
    and "data_quantum_assimilation (fluxes s1) (fluxes s2) = Inl e"
  shows "main env w = (Inl e, w\<lparr>solver_calls := solver_calls w @ [om', dm']\<rparr>)"
  using assms by (simp add: main_def QY_cases tabel_def)

section \<open>Runs of the small instance\<close>

lemma toy_load: "load_models toy_env = Inr (toy_original, toy_diel)"
  by (simp add: load_models_def toy_env_def original_path_def diel_path_def)

lemma toy_configure_original: "configure_original toy_original = Inr toy_original_configured"
  by (simp add: configure_original_def configure_def set_objective_def
      set_objective_direction_def set_bounds_def toy_original_def toy_original_configured_def)

lemma toy_configure_diel: "configure_diel toy_diel = Inr toy_diel_configured"
  by (simp add: configure_diel_def configure_def set_objective_def
      set_objective_direction_def set_bounds_def toy_diel_def toy_diel_configured_def)

lemma toy_configure:
  "configure_models toy_original toy_diel = Inr (toy_original_configured, toy_diel_configured)"
  by (simp add: configure_models_def toy_configure_original toy_configure_diel)

lemma toy_quotients:
  "true_divide (float_of_int 10) (negative (float_of_int (- 20))) = float_of_ratio 1 2"
  "true_divide (float_of_int 5) (negative (float_of_int (- 10))) = float_of_ratio 1 2"
  "true_divide (float_of_int 7) (negative (float_of_int (- 10))) = float_of_ratio 7 10"
  "true_divide (float_of_int 3) (negative (float_of_int (- 20))) = float_of_ratio 3 20"
  "true_divide (float_of_int 0) (negative (float_of_int 0)) = nan"
  by (simp_all add: float_defs)

lemma toy_value_texts:
  "value_text toy_float_str (float_of_ratio 1 2) = ''0.5''"
  "value_text toy_float_str nan = []"
  by (simp_all add: value_text_def toy_float_str_def float_defs)

lemma toy_solve_original:
  "toy_solve toy_original_configured =
     Inr \<lparr>objective_value = float_of_int (- 20), fluxes = toy_fluxes_nd\<rparr>"
  by (simp add: toy_solve_def toy_original_configured_def)

lemma toy_solve_diel:
  "toy_solve toy_diel_configured =
     Inr \<lparr>objective_value = float_of_int (- 10), fluxes = toy_fluxes_d\<rparr>"
  by (simp add: toy_solve_def toy_diel_configured_def)

lemma toy_data:
  "data_quantum_assimilation toy_fluxes_nd toy_fluxes_d =
     Inr [(''Quantum Yield'', [float_of_ratio 1 2, float_of_ratio 1 2])]"
  by (simp add: data_quantum_assimilation_def ratio_def getitem_def toy_quotients
      toy_fluxes_nd_def toy_fluxes_d_def)

lemma toy_tabel: "tabel toy_fluxes_nd toy_fluxes_d = Inr toy_tabel"
  by (simp add: tabel_of_data [OF toy_data] toy_tabel_def)

lemma toy_csv:
  "csv_text toy_float_str (os_linesep Posix) (CHR '','') toy_tabel = toy_csv"
  unfolding toy_tabel_def csv_text_tabel toy_value_texts
  by (simp add: csv_field_def os_linesep_def toy_csv_def)

lemma toy_env_fields:
  "float_str toy_env = toy_float_str" "linesep toy_env = Posix"
  "writable toy_env ''QY_Tomato22.csv''"
  "frame_str toy_env toy_tabel = ''Quantum Yield''"
  "frame_str toy_env toy_tabel_zero = ''Quantum Yield''"
  by (simp_all add: toy_env_def toy_tabel_def toy_tabel_zero_def)

lemma toy_main: "main toy_env toy_world = (Inr (), toy_final_world)"
proof -
  have "pfba toy_env = toy_solve"
    by (simp add: toy_env_def)
  then show ?thesis
    by (simp add: main_def toy_load toy_configure QY_cases toy_env_fields toy_solve_original
        toy_solve_diel toy_tabel export_def to_csv_def print_frame_def toy_csv
        toy_world_def toy_final_world_def)
qed

lemma toy_objectives:
  "objective toy_original_configured = ''EX_photon_h''"
  "objective toy_diel_configured \<noteq> ''EX_photon_h''"
  by (simp_all add: toy_original_configured_def toy_diel_configured_def)

lemma toy_no_photon_main_parts:
  "pfba (toy_env\<lparr>pfba := toy_solve_no_photon\<rparr>) toy_original_configured =
     Inr \<lparr>objective_value = float_of_int 0, fluxes = toy_fluxes_no_photon\<rparr>"
  "pfba (toy_env\<lparr>pfba := toy_solve_no_photon\<rparr>) toy_diel_configured =
     Inr \<lparr>objective_value = float_of_int (- 10), fluxes = toy_fluxes_d\<rparr>"
  "load_models (toy_env\<lparr>pfba := toy_solve_no_photon\<rparr>) = Inr (toy_original, toy_diel)"
  by (simp_all add: toy_solve_no_photon_def toy_solve_diel toy_objectives load_models_def
      toy_env_def original_path_def diel_path_def)

lemma toy_tabel2: "tabel toy_fluxes_nd toy_fluxes_d2 = Inr toy_tabel2"
proof -
  have "data_quantum_assimilation toy_fluxes_nd toy_fluxes_d2 =
          Inr [(''Quantum Yield'', [float_of_ratio 1 2, float_of_ratio 7 10])]"
    by (simp add: data_quantum_assimilation_def ratio_def getitem_def toy_quotients
        toy_fluxes_nd_def toy_fluxes_d2_def)
  from tabel_of_data [OF this] show ?thesis by (simp add: toy_tabel2_def)
qed

lemma toy_tabel3: "tabel toy_fluxes_nd2 toy_fluxes_d = Inr toy_tabel3"
proof -
  have "data_quantum_assimilation toy_fluxes_nd2 toy_fluxes_d =
          Inr [(''Quantum Yield'', [float_of_ratio 3 20, float_of_ratio 1 2])]"
    by (simp add: data_quantum_assimilation_def ratio_def getitem_def toy_quotients
        toy_fluxes_nd2_def toy_fluxes_d_def)
  from tabel_of_data [OF this] show ?thesis by (simp add: toy_tabel3_def)
qed

lemma toy_tabel_zero: "tabel toy_fluxes_zero toy_fluxes_d = Inr toy_tabel_zero"
proof -
  have "data_quantum_assimilation toy_fluxes_zero toy_fluxes_d =
          Inr [(''Quantum Yield'', [nan, float_of_ratio 1 2])]"
    by (simp add: data_quantum_assimilation_def ratio_def getitem_def toy_quotients
        toy_fluxes_zero_def toy_fluxes_d_def)
  from tabel_of_data [OF this] show ?thesis by (simp add: toy_tabel_zero_def)
qed

lemma toy_csv_zero:
  "csv_text toy_float_str (os_linesep Posix) (CHR '','') toy_tabel_zero = toy_csv_zero"
  unfolding toy_tabel_zero_def csv_text_tabel toy_value_texts
  by (simp add: csv_field_def os_linesep_def toy_csv_zero_def)

lemma toy_main_zero:
  "main (toy_env\<lparr>pfba := toy_solve_zero\<rparr>) toy_world = (Inr (), toy_final_world_zero)"
proof -
  have "load_models (toy_env\<lparr>pfba := toy_solve_zero\<rparr>) = Inr (toy_original, toy_diel)"
    by (simp add: load_models_def toy_env_def original_path_def diel_path_def)
  moreover have
    "toy_solve_zero toy_original_configured =
       Inr \<lparr>objective_value = float_of_int 0, fluxes = toy_fluxes_zero\<rparr>"
    "toy_solve_zero toy_diel_configured =
       Inr \<lparr>objective_value = float_of_int (- 10), fluxes = toy_fluxes_d\<rparr>"
    by (simp_all add: toy_solve_zero_def toy_solve_diel toy_objectives)
  ultimately show ?thesis
    by (simp add: main_def toy_configure QY_cases toy_env_fields toy_tabel_zero export_def
        to_csv_def print_frame_def toy_csv_zero toy_world_def toy_final_world_zero_def)
qed

section \<open>Properties\<close>

text \<open>
  Claim C1. For every pair of flux mappings that hold the four keys, the non-diel
  quantum yield is the flux at \<open>RBPCh\<close> divided by the negated flux at \<open>EX_photon_h\<close>,
  and the diel one is the flux at \<open>RBPCh_Day\<close> divided by the negated flux at
  \<open>EX_photon_h_Day\<close>, in the arithmetic of double precision floats. For the mappings
  \<open>{RBPCh: 10, EX_photon_h: -20}\<close> and \<open>{RBPCh_Day: 5, EX_photon_h_Day: -10}\<close> both
  ratios are the float 0.5, whose bits are \<open>3FE0000000000000\<close> and whose value is one
  half.
\<close>

theorem quantum_yield_ratios:
  "(nd ''RBPCh'' = Some a \<and> nd ''EX_photon_h'' = Some b \<and>
    d ''RBPCh_Day'' = Some a' \<and> d ''EX_photon_h_Day'' = Some b' \<longrightarrow>
      data_quantum_assimilation nd d =
        Inr [(''Quantum Yield'', [true_divide a (negative b), true_divide a' (negative b')])])
   \<and> data_quantum_assimilation
        [''RBPCh'' \<mapsto> float_of_int 10, ''EX_photon_h'' \<mapsto> float_of_int (- 20)]
        [''RBPCh_Day'' \<mapsto> float_of_int 5, ''EX_photon_h_Day'' \<mapsto> float_of_int (- 10)]
      = Inr [(''Quantum Yield'', [float_of_ratio 1 2, float_of_ratio 1 2])]
   \<and> float_of_ratio 1 2 = 0x3FE0000000000000
   \<and> valof (float_of_ratio 1 2) = 1 / 2
   \<and> valof (float_of_int 10) = 10 \<and> valof (float_of_int (- 20)) = - 20
   \<and> valof (float_of_int 5) = 5 \<and> valof (float_of_int (- 10)) = - 10"
proof -
  have "data_quantum_assimilation nd d =
      Inr [(''Quantum Yield'', [true_divide a (negative b), true_divide a' (negative b')])]"
    if "nd ''RBPCh'' = Some a" "nd ''EX_photon_h'' = Some b"
      "d ''RBPCh_Day'' = Some a'" "d ''EX_photon_h_Day'' = Some b'"
    using that by (simp add: data_quantum_assimilation_def ratio_def getitem_def)
  moreover have "data_quantum_assimilation
        [''RBPCh'' \<mapsto> float_of_int 10, ''EX_photon_h'' \<mapsto> float_of_int (- 20)]
        [''RBPCh_Day'' \<mapsto> float_of_int 5, ''EX_photon_h_Day'' \<mapsto> float_of_int (- 10)]
      = Inr [(''Quantum Yield'', [float_of_ratio 1 2, float_of_ratio 1 2])]"
    by (simp add: data_quantum_assimilation_def ratio_def getitem_def toy_quotients)
  moreover have "float_of_ratio 1 2 = 0x3FE0000000000000"
    by (simp add: float_defs)
  moreover have "valof (float_of_ratio 1 2) = 1 / 2"
    "valof (float_of_int 10) = 10" "valof (float_of_int (- 20)) = - 20"
    "valof (float_of_int 5) = 5" "valof (float_of_int (- 10)) = - 10"
    by (simp_all add: valof_def float_defs)
  ultimately show ?thesis by blast
qed

theorem quantum_yield_ratios_witness:
  "data_quantum_assimilation toy_fluxes_nd2 toy_fluxes_d2 =
     Inr [(''Quantum Yield'', [float_of_ratio 3 20, float_of_ratio 7 10])]"
  using quantum_yield_ratios
    [of toy_fluxes_nd2 "float_of_int 3" "float_of_int (- 20)"
        toy_fluxes_d2 "float_of_int 7" "float_of_int (- 10)"]
  by (simp add: toy_fluxes_nd2_def toy_fluxes_d2_def toy_quotients)

text \<open>
  Claim C2. The configuration of the non-diel model leaves it with the objective
  reaction \<open>EX_photon_h\<close>, the direction \<open>max\<close> and the bounds (0.11, 0.11) on
  \<open>BIOMASS_STEM\<close>; the configuration of the diel model leaves it with the objective
  reaction \<open>EX_photon_h_Day\<close>, the direction \<open>max\<close> and the bounds (0.11, 0.11) on
  \<open>Biomass_Total\<close>; and in every run of the script the models handed to the solver
  are the two loaded models after exactly this configuration, the non-diel one first.
\<close>

theorem configuration_values:
  "(configure_original m = Inr m' \<longrightarrow>
      objective m' = ''EX_photon_h'' \<and> objective_direction m' = ''max'' \<and>
      (\<exists>r. reactions m' ''BIOMASS_STEM'' = Some r \<and> bounds r = (11 / 100, 11 / 100)))
   \<and> (configure_diel md = Inr md' \<longrightarrow>
      objective md' = ''EX_photon_h_Day'' \<and> objective_direction md' = ''max'' \<and>
      (\<exists>r. reactions md' ''Biomass_Total'' = Some r \<and> bounds r = (11 / 100, 11 / 100)))
   \<and> (main env w = (res, w') \<longrightarrow>
      solver_calls w' = solver_calls w \<or>
      (\<exists>om dm om' dm'. load_models env = Inr (om, dm) \<and>
         configure_original om = Inr om' \<and> configure_diel dm = Inr dm' \<and>
         (solver_calls w' = solver_calls w @ [om'] \<or>
          solver_calls w' = solver_calls w @ [om', dm'])))"
proof -
  have a: "objective m' = ''EX_photon_h'' \<and> objective_direction m' = ''max'' \<and>
      (\<exists>r. reactions m' ''BIOMASS_STEM'' = Some r \<and> bounds r = (11 / 100, 11 / 100))"
    if "configure_original m = Inr m'"
    using that unfolding configure_original_def by (auto dest!: configure_Inr)
  have b: "objective md' = ''EX_photon_h_Day'' \<and> objective_direction md' = ''max'' \<and>
      (\<exists>r. reactions md' ''Biomass_Total'' = Some r \<and> bounds r = (11 / 100, 11 / 100))"
    if "configure_diel md = Inr md'"
    using that unfolding configure_diel_def by (auto dest!: configure_Inr)
  have c: "solver_calls w' = solver_calls w \<or>
      (\<exists>om dm om' dm'. load_models env = Inr (om, dm) \<and>
         configure_original om = Inr om' \<and> configure_diel dm = Inr dm' \<and>
         (solver_calls w' = solver_calls w @ [om'] \<or>
          solver_calls w' = solver_calls w @ [om', dm']))"
    if "main env w = (res, w')"
    using main_solver_calls [OF that] by (blast dest: configure_models_Inr)
  from a b c show ?thesis by blast
qed

theorem configuration_values_witness:
  "configure_original toy_original = Inr toy_original_configured
   \<and> objective toy_original_configured = ''EX_photon_h''
   \<and> objective_direction toy_original_configured = ''max''
   \<and> (\<exists>r. reactions toy_original_configured ''BIOMASS_STEM'' = Some r
          \<and> bounds r = (11 / 100, 11 / 100))
   \<and> configure_diel toy_diel = Inr toy_diel_configured
   \<and> objective toy_diel_configured = ''EX_photon_h_Day''
   \<and> objective_direction toy_diel_configured = ''max''
   \<and> (\<exists>r. reactions toy_diel_configured ''Biomass_Total'' = Some r
          \<and> bounds r = (11 / 100, 11 / 100))
   \<and> main toy_env toy_world = (Inr (), toy_final_world)
   \<and> solver_calls toy_final_world =
       solver_calls toy_world @ [toy_original_configured, toy_diel_configured]"
  using configuration_values [of toy_original toy_original_configured toy_diel
      toy_diel_configured toy_env toy_world "Inr ()" toy_final_world]
    toy_configure_original toy_configure_diel toy_main
  by (simp add: toy_final_world_def toy_world_def)

text \<open>
  Claim C3. When the solver answers on both models, \<open>QY\<close> has called it on the
  non-diel model and then on the diel model, and returns the pair of the two
  solutions' flux mappings as they are: the non-diel one first, the diel one second.
\<close>

theorem QY_returns_both_fluxes:
  assumes "solve non_diel_model = Inr s_nd" and "solve diel_model = Inr s_d"
  shows "QY solve non_diel_model diel_model w =
           (Inr (fluxes s_nd, fluxes s_d),
            w\<lparr>solver_calls := solver_calls w @ [non_diel_model, diel_model]\<rparr>)"
  using assms by (simp add: QY_cases)

theorem QY_returns_both_fluxes_witness:
  "QY toy_solve toy_original_configured toy_diel_configured toy_world =
     (Inr (toy_fluxes_nd, toy_fluxes_d),
      toy_world\<lparr>solver_calls := [toy_original_configured, toy_diel_configured]\<rparr>)"
  using QY_returns_both_fluxes [OF toy_solve_original toy_solve_diel, of toy_world]
  by (simp add: toy_world_def)

text \<open>
  Claim C4. A table that is assembled has the two row labels \<open>Original Model\<close> and
  \<open>Created Diel Model\<close>, in this order, two rows, and the single column
  \<open>Quantum Yield\<close> of two values; and in a successful run the table that is written
  to the file and the table that is printed are this assembled table, unchanged.
\<close>

theorem tabel_shape:
  "(tabel nd d = Inr t \<longrightarrow>
      index t = Labels [''Original Model'', ''Created Diel Model''] \<and>
      nrows t = 2 \<and> map fst (columns t) = [''Quantum Yield''] \<and>
      (\<exists>v1 v2. columns t = [(''Quantum Yield'', [v1, v2])]))
   \<and> (main env w = (Inr u, w') \<longrightarrow>
      (\<exists>(s1::solution) (s2::solution) t'. tabel (fluxes s1) (fluxes s2) = Inr t' \<and>
         files w' ''QY_Tomato22.csv'' =
           Some (csv_text (float_str env) (os_linesep (linesep env)) (CHR '','') t') \<and>
         stdout w' = stdout w @ frame_str env t' @ [CHR 0x0A]))"
proof -
  have a: "index t = Labels [''Original Model'', ''Created Diel Model''] \<and>
      nrows t = 2 \<and> map fst (columns t) = [''Quantum Yield''] \<and>
      (\<exists>v1 v2. columns t = [(''Quantum Yield'', [v1, v2])])"
    if "tabel nd d = Inr t"
    using tabel_Inr [OF that] by (auto simp: nrows_def)
  have b: "\<exists>(s1::solution) (s2::solution) t'. tabel (fluxes s1) (fluxes s2) = Inr t' \<and>
         files w' ''QY_Tomato22.csv'' =
           Some (csv_text (float_str env) (os_linesep (linesep env)) (CHR '','') t') \<and>
         stdout w' = stdout w @ frame_str env t' @ [CHR 0x0A]"
    if "main env w = (Inr u, w')"
    using main_success_output [OF that] by blast
  from a b show ?thesis by blast
qed

theorem tabel_shape_witness:
  "tabel toy_fluxes_nd toy_fluxes_d = Inr toy_tabel
   \<and> index toy_tabel = Labels [''Original Model'', ''Created Diel Model'']
   \<and> nrows toy_tabel = 2
   \<and> map fst (columns toy_tabel) = [''Quantum Yield'']
   \<and> main toy_env toy_world = (Inr (), toy_final_world)
   \<and> (\<exists>(s1::solution) (s2::solution) t'. tabel (fluxes s1) (fluxes s2) = Inr t' \<and>
         files toy_final_world ''QY_Tomato22.csv'' =
           Some (csv_text (float_str toy_env) (os_linesep (linesep toy_env)) (CHR '','') t') \<and>
         stdout toy_final_world = stdout toy_world @ frame_str toy_env t' @ [CHR 0x0A])"
  using tabel_shape [of toy_fluxes_nd toy_fluxes_d toy_tabel toy_env toy_world "()"
      toy_final_world] toy_tabel toy_main
  by auto

text \<open>
  Claim C5, amended. After a successful run the file \<open>QY_Tomato22.csv\<close> holds three
  comma-separated rows, each ended by the platform's line separator: the header
  \<open>,Quantum Yield\<close>, the row \<open>Original Model\<close> and the row \<open>Created Diel Model\<close>.
  Each of the two rows carries one field for its quantum yield, the quotient of the
  two fluxes the solver gave for the configured model: the decimal text of the float
  when it is finite, \<open>inf\<close> or \<open>-inf\<close> when it is an infinity, and nothing when it is a
  NaN. Standard output has received the text of the table of these two labels and
  these two quotients.
\<close>

theorem main_writes_csv_and_prints:
  assumes "main env w = (Inr u, w')"
  shows "\<exists>om dm om' dm' s1 s2 a b a' b'.
           load_models env = Inr (om, dm) \<and> configure_models om dm = Inr (om', dm') \<and>
           pfba env om' = Inr s1 \<and> pfba env dm' = Inr s2 \<and>
           fluxes s1 ''RBPCh'' = Some a \<and> fluxes s1 ''EX_photon_h'' = Some b \<and>
           fluxes s2 ''RBPCh_Day'' = Some a' \<and> fluxes s2 ''EX_photon_h_Day'' = Some b' \<and>
           files w' ''QY_Tomato22.csv'' =
             Some ('',Quantum Yield'' @ os_linesep (linesep env) @
                   ''Original Model,'' @
                   csv_field (CHR '','') (os_linesep (linesep env))
                     (value_text (float_str env) (true_divide a (negative b))) @
                   os_linesep (linesep env) @
                   ''Created Diel Model,'' @
                   csv_field (CHR '','') (os_linesep (linesep env))
                     (value_text (float_str env) (true_divide a' (negative b'))) @
                   os_linesep (linesep env))
           \<and> stdout w' =
               stdout w @
               frame_str env
                 \<lparr>columns = [(''Quantum Yield'',
                     [true_divide a (negative b), true_divide a' (negative b')])],
                  index = Labels [''Original Model'', ''Created Diel Model'']\<rparr> @
               [CHR 0x0A]"
proof -
  from main_success [OF assms] obtain om dm om' dm' s1 s2 t where
    run: "load_models env = Inr (om, dm)" "configure_models om dm = Inr (om', dm')"
      "pfba env om' = Inr s1" "pfba env dm' = Inr s2"
    and t: "tabel (fluxes s1) (fluxes s2) = Inr t"
    and w': "w' = w\<lparr>solver_calls := solver_calls w @ [om', dm'],
                  files := (files w)(''QY_Tomato22.csv'' \<mapsto>
                     csv_text (float_str env) (os_linesep (linesep env)) (CHR '','') t),
                  stdout := stdout w @ frame_str env t @ [CHR 0x0A]\<rparr>"
    by blast
  from tabel_Inr [OF t] obtain a b a' b' where
    k: "fluxes s1 ''RBPCh'' = Some a" "fluxes s1 ''EX_photon_h'' = Some b"
      "fluxes s2 ''RBPCh_Day'' = Some a'" "fluxes s2 ''EX_photon_h_Day'' = Some b'"
    and te: "t = \<lparr>columns = [(''Quantum Yield'',
                     [true_divide a (negative b), true_divide a' (negative b')])],
                  index = Labels [''Original Model'', ''Created Diel Model'']\<rparr>"
    by blast
  from w' have
    "files w' ''QY_Tomato22.csv'' =
       Some (csv_text (float_str env) (os_linesep (linesep env)) (CHR '','') t)"
    and "stdout w' = stdout w @ frame_str env t @ [CHR 0x0A]"
    by simp_all
  then have
    "files w' ''QY_Tomato22.csv'' =
             Some ('',Quantum Yield'' @ os_linesep (linesep env) @
                   ''Original Model,'' @
                   csv_field (CHR '','') (os_linesep (linesep env))
                     (value_text (float_str env) (true_divide a (negative b))) @
                   os_linesep (linesep env) @
                   ''Created Diel Model,'' @
                   csv_field (CHR '','') (os_linesep (linesep env))
                     (value_text (float_str env) (true_divide a' (negative b'))) @
                   os_linesep (linesep env))"
    and "stdout w' =
               stdout w @
               frame_str env
                 \<lparr>columns = [(''Quantum Yield'',
                     [true_divide a (negative b), true_divide a' (negative b')])],
                  index = Labels [''Original Model'', ''Created Diel Model'']\<rparr> @
               [CHR 0x0A]"
    unfolding te csv_text_tabel by simp_all
  with run k show ?thesis by blast
qed

theorem main_writes_csv_and_prints_witness:
  "main toy_env toy_world = (Inr (), toy_final_world)
   \<and> files toy_final_world ''QY_Tomato22.csv'' =
       Some ('',Quantum Yield'' @ [CHR 0x0A] @ ''Original Model,0.5'' @ [CHR 0x0A] @
             ''Created Diel Model,0.5'' @ [CHR 0x0A])
   \<and> (\<exists>a b a' b'.
         files toy_final_world ''QY_Tomato22.csv'' =
             Some ('',Quantum Yield'' @ os_linesep (linesep toy_env) @
                   ''Original Model,'' @
                   csv_field (CHR '','') (os_linesep (linesep toy_env))
                     (value_text (float_str toy_env) (true_divide a (negative b))) @
                   os_linesep (linesep toy_env) @
                   ''Created Diel Model,'' @
                   csv_field (CHR '','') (os_linesep (linesep toy_env))
                     (value_text (float_str toy_env) (true_divide a' (negative b'))) @
                   os_linesep (linesep toy_env))
           \<and> stdout toy_final_world =
               stdout toy_world @
               frame_str toy_env
                 \<lparr>columns = [(''Quantum Yield'',
                     [true_divide a (negative b), true_divide a' (negative b')])],
                  index = Labels [''Original Model'', ''Created Diel Model'']\<rparr> @
               [CHR 0x0A])"
proof -
  have "files toy_final_world ''QY_Tomato22.csv'' =
       Some ('',Quantum Yield'' @ [CHR 0x0A] @ ''Original Model,0.5'' @ [CHR 0x0A] @
             ''Created Diel Model,0.5'' @ [CHR 0x0A])"
    by (simp add: toy_final_world_def toy_csv_def)
  with main_writes_csv_and_prints [OF toy_main] toy_main show ?thesis
    by blast
qed

text \<open>
  Claim C5 as it is written does not hold. The solver of this run gives the flux 0.0
  for both \<open>RBPCh\<close> and \<open>EX_photon_h\<close> of the non-diel model, the ratio is
  \<open>0.0 / -0.0\<close>, a NaN, the run succeeds, and the row \<open>Original Model\<close> of the file
  carries no value: nothing stands between its comma and the end of the line.
\<close>

theorem main_writes_empty_field_for_nan:
  "main (toy_env\<lparr>pfba := toy_solve_zero\<rparr>) toy_world = (Inr (), toy_final_world_zero)
   \<and> true_divide (float_of_int 0) (negative (float_of_int 0)) = nan
   \<and> is_nan nan
   \<and> value_text (float_str (toy_env\<lparr>pfba := toy_solve_zero\<rparr>)) nan = []
   \<and> files toy_final_world_zero ''QY_Tomato22.csv'' =
       Some ('',Quantum Yield'' @ [CHR 0x0A] @ ''Original Model,'' @ [CHR 0x0A] @
             ''Created Diel Model,0.5'' @ [CHR 0x0A])"
proof -
  have "is_nan nan"
    by (simp add: float_defs)
  moreover have "files toy_final_world_zero ''QY_Tomato22.csv'' =
       Some ('',Quantum Yield'' @ [CHR 0x0A] @ ''Original Model,'' @ [CHR 0x0A] @
             ''Created Diel Model,0.5'' @ [CHR 0x0A])"
    by (simp add: toy_final_world_zero_def toy_csv_zero_def)
  ultimately show ?thesis
    using toy_main_zero toy_quotients(5) toy_value_texts(2) toy_env_fields(1) by simp
qed

text \<open>
  Claim C6. When both models are loaded, configured and solved, and one of the keys
  \<open>RBPCh\<close>, \<open>EX_photon_h\<close> (non-diel fluxes), \<open>RBPCh_Day\<close>, \<open>EX_photon_h_Day\<close>
  (diel fluxes) is absent, the ratio computation raises \<open>KeyError\<close> for one of the
  four keys, no value stands in for the missing flux, the script ends with this
  error, and neither the files nor standard output have changed.
\<close>

theorem missing_key_terminates_without_csv:
  assumes "load_models env = Inr (om, dm)" and "configure_models om dm = Inr (om', dm')"
    and "pfba env om' = Inr s1" and "pfba env dm' = Inr s2"
    and "fluxes s1 ''RBPCh'' = None \<or> fluxes s1 ''EX_photon_h'' = None \<or>
         fluxes s2 ''RBPCh_Day'' = None \<or> fluxes s2 ''EX_photon_h_Day'' = None"
  shows "\<exists>k w'. (k = ''RBPCh'' \<or> k = ''EX_photon_h'' \<or> k = ''RBPCh_Day'' \<or>
                  k = ''EX_photon_h_Day'')
           \<and> data_quantum_assimilation (fluxes s1) (fluxes s2) = Inl (KeyError k)
           \<and> main env w = (Inl (KeyError k), w')
           \<and> files w' = files w \<and> stdout w' = stdout w"
proof -
  from missing_key_fails [OF assms(5)] obtain e where
    e: "data_quantum_assimilation (fluxes s1) (fluxes s2) = Inl e" by blast
  from data_quantum_assimilation_Inl [OF e] have
    k: "e = KeyError ''RBPCh'' \<or> e = KeyError ''EX_photon_h'' \<or>
        e = KeyError ''RBPCh_Day'' \<or> e = KeyError ''EX_photon_h_Day''"
    by blast
  have m: "main env w = (Inl e, w\<lparr>solver_calls := solver_calls w @ [om', dm']\<rparr>)"
    by (rule main_missing_key [OF assms(1-4) e])
  from k e m show ?thesis by auto
qed

theorem missing_key_terminates_without_csv_witness:
  "\<exists>k w'. (k = ''RBPCh'' \<or> k = ''EX_photon_h'' \<or> k = ''RBPCh_Day'' \<or>
            k = ''EX_photon_h_Day'')
     \<and> data_quantum_assimilation toy_fluxes_no_photon toy_fluxes_d = Inl (KeyError k)
     \<and> main (toy_env\<lparr>pfba := toy_solve_no_photon\<rparr>) toy_world = (Inl (KeyError k), w')
     \<and> files w' = Map.empty \<and> stdout w' = []"
  using missing_key_terminates_without_csv
    [OF toy_no_photon_main_parts(3) toy_configure toy_no_photon_main_parts(1,2), of toy_world]
  by (simp add: toy_world_def toy_fluxes_no_photon_def)

text \<open>
  Claim C8. Each of the two configuration steps changes, of the model, the objective,
  the objective direction and the entry of one reaction (\<open>BIOMASS_STEM\<close>, respectively
  \<open>Biomass_Total\<close>), whose stoichiometry it keeps: the metabolites, the set of
  reactions and every other reaction are as before. The step yields the updated
  model and nothing else.
\<close>

theorem configuration_frame:
  assumes "step = configure_original \<and> rid = ''BIOMASS_STEM'' \<or>
           step = configure_diel \<and> rid = ''Biomass_Total''"
    and "step m = Inr m'"
  shows "metabolites m' = metabolites m
       \<and> dom (reactions m') = dom (reactions m)
       \<and> (\<forall>r. r \<noteq> rid \<longrightarrow> reactions m' r = reactions m r)
       \<and> (\<exists>r0 r1. reactions m rid = Some r0 \<and> reactions m' rid = Some r1 \<and>
             stoichiometry r1 = stoichiometry r0)
       \<and> m' = m\<lparr>objective := objective m', objective_direction := objective_direction m',
                 reactions := reactions m'\<rparr>"
proof -
  from assms obtain obj where "configure m obj ''max'' rid (11 / 100, 11 / 100) = Inr m'"
    by (auto simp: configure_original_def configure_diel_def)
  from configure_Inr [OF this] obtain r where
    r: "reactions m rid = Some r"
    and m': "m' = m\<lparr>objective := obj, objective_direction := ''max'',
                   reactions := (reactions m)(rid \<mapsto> r\<lparr>bounds := (11 / 100, 11 / 100)\<rparr>)\<rparr>"
    by blast
  from r m' have "dom (reactions m') = dom (reactions m)"
    by (auto split: if_splits)
  moreover from r m' have "\<exists>r0 r1. reactions m rid = Some r0 \<and> reactions m' rid = Some r1 \<and>
             stoichiometry r1 = stoichiometry r0"
    by simp
  moreover from m' have "metabolites m' = metabolites m"
    and "\<forall>r. r \<noteq> rid \<longrightarrow> reactions m' r = reactions m r"
    and "m' = m\<lparr>objective := objective m', objective_direction := objective_direction m',
                 reactions := reactions m'\<rparr>"
    by simp_all
  ultimately show ?thesis by blast
qed

theorem configuration_frame_witness:
  "configure_original toy_original = Inr toy_original_configured
   \<and> metabolites toy_original_configured = metabolites toy_original
   \<and> dom (reactions toy_original_configured) = dom (reactions toy_original)
   \<and> reactions toy_original_configured ''RBPCh'' = reactions toy_original ''RBPCh''
   \<and> reactions toy_original_configured ''EX_photon_h'' =
       reactions toy_original ''EX_photon_h''
   \<and> (\<exists>r0 r1. reactions toy_original ''BIOMASS_STEM'' = Some r0 \<and>
         reactions toy_original_configured ''BIOMASS_STEM'' = Some r1 \<and>
         stoichiometry r1 = stoichiometry r0)
   \<and> configure_diel toy_diel = Inr toy_diel_configured
   \<and> metabolites toy_diel_configured = metabolites toy_diel
   \<and> dom (reactions toy_diel_configured) = dom (reactions toy_diel)
   \<and> reactions toy_diel_configured ''RBPCh_Day'' = reactions toy_diel ''RBPCh_Day''
   \<and> (\<exists>r0 r1. reactions toy_diel ''Biomass_Total'' = Some r0 \<and>
         reactions toy_diel_configured ''Biomass_Total'' = Some r1 \<and>
         stoichiometry r1 = stoichiometry r0)"
  using configuration_frame [of configure_original "''BIOMASS_STEM''" toy_original
      toy_original_configured]
    configuration_frame [of configure_diel "''Biomass_Total''" toy_diel toy_diel_configured]
    toy_configure_original toy_configure_diel
  by simp

text \<open>
  Claim C9. \<open>QY\<close> solves the non-diel model first. When that solve fails, the
  failure is the result of \<open>QY\<close>, no pair of fluxes is returned, and the solver has
  been called on the non-diel model only; the diel model is solved only after the
  non-diel solve has succeeded.
\<close>

theorem QY_stops_at_first_failure:
  "(solve non_diel_model = Inl e \<longrightarrow>
      QY solve non_diel_model diel_model w =
        (Inl e, w\<lparr>solver_calls := solver_calls w @ [non_diel_model]\<rparr>))
   \<and> (solve non_diel_model = Inr s \<longrightarrow>
      solver_calls (snd (QY solve non_diel_model diel_model w)) =
        solver_calls w @ [non_diel_model, diel_model])"
  by (simp add: QY_cases split: sum.splits)

theorem QY_stops_at_first_failure_witness:
  "QY toy_solve_infeasible toy_original_configured toy_diel_configured toy_world =
     (Inl (SolverError ''infeasible''),
      toy_world\<lparr>solver_calls := [toy_original_configured]\<rparr>)
   \<and> solver_calls
       (snd (QY toy_solve toy_original_configured toy_diel_configured toy_world)) =
       [toy_original_configured, toy_diel_configured]"
proof -
  have f: "toy_solve_infeasible toy_original_configured = Inl (SolverError ''infeasible'')"
    by (simp add: toy_solve_infeasible_def toy_original_configured_def)
  from QY_stops_at_first_failure
      [of toy_solve_infeasible toy_original_configured "SolverError ''infeasible''"
        toy_diel_configured toy_world]
    QY_stops_at_first_failure
      [of toy_solve toy_original_configured _ toy_diel_configured toy_world
        "\<lparr>objective_value = float_of_int (- 20), fluxes = toy_fluxes_nd\<rparr>"]
    f toy_solve_original
  show ?thesis by (simp add: toy_world_def)
qed

text \<open>
  Claim C10. Of two assembled tables, the first values are equal whenever the two
  non-diel mappings agree on \<open>RBPCh\<close> and \<open>EX_photon_h\<close>, whatever the diel
  mappings are, and the second values are equal whenever the two diel mappings agree
  on \<open>RBPCh_Day\<close> and \<open>EX_photon_h_Day\<close>, whatever the non-diel mappings are.
\<close>

theorem rows_depend_on_own_fluxes:
  assumes "tabel nd1 d1 = Inr t1" and "tabel nd2 d2 = Inr t2"
  shows "\<exists>v1 v2 u1 u2.
           columns t1 = [(''Quantum Yield'', [v1, v2])] \<and>
           columns t2 = [(''Quantum Yield'', [u1, u2])] \<and>
           (nd1 ''RBPCh'' = nd2 ''RBPCh'' \<and> nd1 ''EX_photon_h'' = nd2 ''EX_photon_h''
              \<longrightarrow> v1 = u1) \<and>
           (d1 ''RBPCh_Day'' = d2 ''RBPCh_Day'' \<and>
            d1 ''EX_photon_h_Day'' = d2 ''EX_photon_h_Day'' \<longrightarrow> v2 = u2)"
  using tabel_Inr [OF assms(1)] tabel_Inr [OF assms(2)] by auto

theorem rows_depend_on_own_fluxes_witness:
  "tabel toy_fluxes_nd toy_fluxes_d = Inr toy_tabel
   \<and> tabel toy_fluxes_nd toy_fluxes_d2 = Inr toy_tabel2
   \<and> (\<exists>v1 v2 u1 u2.
         columns toy_tabel = [(''Quantum Yield'', [v1, v2])] \<and>
         columns toy_tabel2 = [(''Quantum Yield'', [u1, u2])] \<and> v1 = u1)
   \<and> tabel toy_fluxes_nd2 toy_fluxes_d = Inr toy_tabel3
   \<and> (\<exists>v1 v2 u1 u2.
         columns toy_tabel = [(''Quantum Yield'', [v1, v2])] \<and>
         columns toy_tabel3 = [(''Quantum Yield'', [u1, u2])] \<and> v2 = u2)"
  using rows_depend_on_own_fluxes [OF toy_tabel toy_tabel2]
    rows_depend_on_own_fluxes [OF toy_tabel toy_tabel3] toy_tabel toy_tabel2 toy_tabel3
  by auto

end
